theory Spec2Isabelle
  imports Complex_Main "HOL-Library.List_Lexorder"
begin

section \<open>JavaScript strings\<close>

text \<open>
  A JavaScript string is a sequence of UTF-16 code units; \<open>length\<close>, indexing, \<open>slice\<close>
  and the regular expressions of \<^verbatim>\<open>superthanks.js\<close> (none has the \<^verbatim>\<open>u\<close> flag) all count
  code units. A string is therefore a list of code units, each a number from \<open>0\<close> to
  \<open>0xFFFF\<close>.
  \<open>ascii\<close> writes the ASCII part of a literal; the other units are written by their
  number: the lira sign is \<open>0x20BA\<close>, the euro sign \<open>0x20AC\<close>, u-umlaut \<open>0xFC\<close>,
  s-cedilla \<open>0x15F\<close> (the source file has the precomposed letters).
\<close>

type_synonym jsstring = "int list"

definition ascii :: "string \<Rightarrow> jsstring" where
  "ascii cs = map of_char cs"

text \<open>White space as \<^verbatim>\<open>String.prototype.trim\<close> and the class \<^verbatim>\<open>\s\<close> read it:
  the WhiteSpace and LineTerminator code points of ECMAScript.\<close>

definition is_ws :: "int \<Rightarrow> bool" where
  "is_ws u = (u = 9 \<or> u = 10 \<or> u = 11 \<or> u = 12 \<or> u = 13 \<or> u = 32 \<or> u = 0xA0 \<or> u = 0x1680
      \<or> (0x2000 \<le> u \<and> u \<le> 0x200A) \<or> u = 0x2028 \<or> u = 0x2029 \<or> u = 0x202F \<or> u = 0x205F
      \<or> u = 0x3000 \<or> u = 0xFEFF)"

definition is_digit :: "int \<Rightarrow> bool" where
  "is_digit u = (48 \<le> u \<and> u \<le> 57)"

text \<open>The class \<^verbatim>\<open>\w\<close> (without the \<^verbatim>\<open>u\<close> flag): letters, digits, underscore.\<close>

definition is_word :: "int \<Rightarrow> bool" where
  "is_word u = ((97 \<le> u \<and> u \<le> 122) \<or> (65 \<le> u \<and> u \<le> 90) \<or> is_digit u \<or> u = 95)"

definition trim :: "jsstring \<Rightarrow> jsstring" where
  "trim s = rev (dropWhile is_ws (rev (dropWhile is_ws s)))"

text \<open>
  \<^verbatim>\<open>toLowerCase\<close> and \<^verbatim>\<open>toUpperCase\<close> follow the Unicode case mappings. The model has the
  mappings of ASCII and Latin-1, of s-cedilla, and every mapping between a unit outside
  ASCII and an ASCII letter (the Kelvin sign and dotted capital I lower to \<open>k\<close> and to
  \<open>i\<close> with a combining dot; sharp s, dotless i and long s upper to \<open>SS\<close>, \<open>I\<close>, \<open>S\<close>).
  The other cased letters (Greek, Cyrillic, ...) are left as they are: no keyword and no
  pattern of the program holds a unit they map from or to, so no test of the program
  tells the difference.
\<close>

definition lower_unit :: "int \<Rightarrow> jsstring" where
  "lower_unit u =
     (if 65 \<le> u \<and> u \<le> 90 then [u + 32]
      else if 0xC0 \<le> u \<and> u \<le> 0xDE \<and> u \<noteq> 0xD7 then [u + 32]
      else if u = 0x15E then [0x15F]
      else if u = 0x212A then [107]
      else if u = 0x130 then [105, 0x307]
      else [u])"

definition toLowerCase :: "jsstring \<Rightarrow> jsstring" where
  "toLowerCase s = concat (map lower_unit s)"

definition upper_unit :: "int \<Rightarrow> jsstring" where
  "upper_unit u =
     (if 97 \<le> u \<and> u \<le> 122 then [u - 32]
      else if 0xE0 \<le> u \<and> u \<le> 0xFE \<and> u \<noteq> 0xF7 then [u - 32]
      else if u = 0x15F then [0x15E]
      else if u = 0xDF then [83, 83]
      else if u = 0x131 then [73]
      else if u = 0x17F then [83]
      else if u = 0xFF then [0x178]
      else [u])"




text \<open>\<^verbatim>\<open>s.lastIndexOf(c)\<close> for a one-unit string \<open>c\<close>: the last index, or \<open>-1\<close>.\<close>

definition lastIndexOf :: "jsstring \<Rightarrow> int \<Rightarrow> int" where
  "lastIndexOf s c =
     (case filter (\<lambda>i. s ! i = c) (rev [0..<length s]) of [] \<Rightarrow> - 1 | i # _ \<Rightarrow> int i)"

text \<open>
  A global replace whose pattern is one unit or one class of units visits every unit
  once: \<^verbatim>\<open>s.replace(/[.,\s]/g, '')\<close> deletes the units of the class, and
  \<^verbatim>\<open>s.replace(/,/g, '.')\<close> rewrites each of them.
\<close>

definition delete_all :: "(int \<Rightarrow> bool) \<Rightarrow> jsstring \<Rightarrow> jsstring" where
  "delete_all P s = filter (\<lambda>u. \<not> P u) s"

definition replace_all :: "(int \<Rightarrow> bool) \<Rightarrow> int \<Rightarrow> jsstring \<Rightarrow> jsstring" where
  "replace_all P c s = map (\<lambda>u. if P u then c else u) s"



section \<open>Regular expressions\<close>

text \<open>
  The patterns of the program use literals, classes, sequence, ordered alternation,
  greedy quantifiers, \<^verbatim>\<open>\b\<close>, \<^verbatim>\<open>^\<close> and \<^verbatim>\<open>$\<close>. A capture group is read off the positions
  where its part starts and ends.
\<close>

datatype re =
    Eps
  | Lit int
  | Cls "int \<Rightarrow> bool"
  | Seq re re
  | Alt re re
  | Rep nat "nat option" re
  | WordB
  | Bol
  | Eol

text \<open>
  With the \<^verbatim>\<open>i\<close> flag two units match when their canonical forms are equal. Canonicalize
  (ECMAScript, without the \<^verbatim>\<open>u\<close> flag) upper-cases one unit, and keeps the unit when the
  result is longer than one unit or would turn a unit outside ASCII into an ASCII one.
\<close>

definition canon :: "int \<Rightarrow> int" where
  "canon u = (case upper_unit u of [c] \<Rightarrow> if 128 \<le> u \<and> c < 128 then u else c | _ \<Rightarrow> u)"

text \<open>
  The matcher returns the end positions of all matches of a pattern that start at \<open>p\<close>,
  in the order in which the backtracking matcher of ECMAScript would find them: its
  first success is the head of the list. \<open>rep\<close> is RepeatMatcher for a greedy
  quantifier \<^verbatim>\<open>{mn,mx}\<close> (\<open>None\<close> is no upper bound): one more round of the atom first,
  and an empty round is refused once the minimum is reached. The bounds \<open>p \<le> q\<close> and
  \<open>q \<le> len\<close> hold for every position a matcher returns.
\<close>

function rep :: "(nat \<Rightarrow> nat list) \<Rightarrow> nat \<Rightarrow> nat \<Rightarrow> nat option \<Rightarrow> nat \<Rightarrow> nat list" where
  "rep f len mn mx p =
     (if mx = Some 0 then [p]
      else concat (map (rep f len (mn - 1) (map_option (\<lambda>m. m - 1) mx))
                       (filter (\<lambda>q. p \<le> q \<and> q \<le> len \<and> (0 < mn \<or> p < q)) (f p)))
           @ (if mn = 0 then [p] else []))"
  by pat_completeness auto
termination
  by (relation "measure (\<lambda>(f, len, mn, mx, p). mn + (len - p))") auto

fun rm :: "bool \<Rightarrow> re \<Rightarrow> jsstring \<Rightarrow> nat \<Rightarrow> nat list" where
  "rm ic Eps s p = [p]"
| "rm ic (Lit c) s p =
     (if p < length s \<and> (if ic then canon (s ! p) = canon c else s ! p = c)
      then [Suc p] else [])"
| "rm ic (Cls P) s p = (if p < length s \<and> P (s ! p) then [Suc p] else [])"
| "rm ic (Seq a b) s p = concat (map (rm ic b s) (rm ic a s p))"
| "rm ic (Alt a b) s p = rm ic a s p @ rm ic b s p"
| "rm ic (Rep mn mx a) s p = rep (rm ic a s) (length s) mn mx p"
| "rm ic WordB s p =
     (if (0 < p \<and> is_word (s ! (p - 1))) \<noteq> (p < length s \<and> is_word (s ! p))
      then [p] else [])"
| "rm ic Bol s p = (if p = 0 then [p] else [])"
| "rm ic Eol s p = (if p = length s then [p] else [])"

text \<open>
  \<^verbatim>\<open>exec\<close> from index \<open>i0\<close>: the first start position at or after \<open>i0\<close> where the
  pattern matches, with the end of the first match there.
\<close>

definition re_exec :: "bool \<Rightarrow> re \<Rightarrow> jsstring \<Rightarrow> nat \<Rightarrow> (nat \<times> nat) option" where
  "re_exec ic r s i0 =
     (case List.find (\<lambda>i. rm ic r s i \<noteq> []) [i0..<Suc (length s)] of
        None \<Rightarrow> None
      | Some i \<Rightarrow> Some (i, hd (rm ic r s i)))"

definition re_test :: "bool \<Rightarrow> re \<Rightarrow> jsstring \<Rightarrow> bool" where
  "re_test ic r s = (re_exec ic r s 0 \<noteq> None)"

text \<open>\<^verbatim>\<open>s.replace(r, '')\<close> for a pattern without the \<^verbatim>\<open>g\<close> flag: the first match goes.\<close>

definition delete_first :: "bool \<Rightarrow> re \<Rightarrow> jsstring \<Rightarrow> jsstring" where
  "delete_first ic r s =
     (case re_exec ic r s 0 of None \<Rightarrow> s | Some (i, e) \<Rightarrow> take i s @ drop e s)"

fun lits :: "jsstring \<Rightarrow> re" where
  "lits [] = Eps"
| "lits (c # cs) = Seq (Lit c) (lits cs)"


definition Digit :: re where
  "Digit = Cls is_digit"

definition Space :: re where
  "Space = Cls is_ws"


section \<open>Numbers\<close>

text \<open>
  A JavaScript number is an IEEE double. The model keeps the exact rational value of a
  finite number and the three special values; what a double rounds away is not
  modelled, what it overflows is: a result whose magnitude reaches
  \<open>2^1024 - 2^970\<close> (half an ulp above the largest double) is an infinity.
  Negative zero is \<open>Num 0\<close>.
\<close>

datatype jsnum = Num rat | PosInf | NegInf | NaN

definition DBL_LIMIT :: rat where
  "DBL_LIMIT = 2 ^ 1024 - 2 ^ 970"

lemma DBL_LIMIT_code [code]:
  "DBL_LIMIT =
     179769313486231580793728971405303415079934132710037826936173778980444968292764750946649017977587207096330286416692887910946555547851940402630657488671505820681908902000708383676273854845817711531764475730270069855571366959622842914819860834936475292719074168444365510704342711559699508093042880177904174497792"
  by (simp add: DBL_LIMIT_def)

definition mk_num :: "rat \<Rightarrow> jsnum" where
  "mk_num r = (if DBL_LIMIT \<le> r then PosInf else if r \<le> - DBL_LIMIT then NegInf else Num r)"



text \<open>\<open>x * k\<close> and \<open>x / k\<close> for a positive constant \<open>k\<close> (the program multiplies by
  1, 1000 and 100 and divides by 100).\<close>

fun js_times :: "jsnum \<Rightarrow> rat \<Rightarrow> jsnum" where
  "js_times (Num a) k = mk_num (a * k)"
| "js_times x k = x"

fun js_over :: "jsnum \<Rightarrow> rat \<Rightarrow> jsnum" where
  "js_over (Num a) k = mk_num (a / k)"
| "js_over x k = x"

text \<open>\<^verbatim>\<open>Math.round\<close>: the nearest integer, a tie going up.\<close>

fun math_round :: "jsnum \<Rightarrow> jsnum" where
  "math_round (Num a) = Num (of_int \<lfloor>a + 1 / 2\<rfloor>)"
| "math_round x = x"












section \<open>The amount parser\<close>

text \<open>\<^verbatim>\<open>normalizeCurrency\<close>: a chain of comparisons, the token itself at the end.\<close>

definition normalizeCurrency :: "jsstring \<Rightarrow> jsstring" where
  "normalizeCurrency c =
     (if c = [0x20BA] \<or> c = ascii ''TL'' \<or> c = ascii ''TRY'' then ascii ''TRY''
      else if c = ascii ''$'' \<or> c = ascii ''USD'' then ascii ''USD''
      else if c = [0x20AC] \<or> c = ascii ''EUR'' then ascii ''EUR''
      else if c = [0xA3] \<or> c = ascii ''GBP'' then ascii ''GBP''
      else if c = [0xA5] \<or> c = ascii ''JPY'' then ascii ''JPY''
      else if c = [0x20B9] \<or> c = ascii ''INR'' then ascii ''INR''
      else if c = [0x20A9] \<or> c = ascii ''KRW'' then ascii ''KRW''
      else if c = [0x20AB] \<or> c = ascii ''VND'' then ascii ''VND''
      else if c = [0x20A6] \<or> c = ascii ''NGN'' then ascii ''NGN''
      else if c = [0x20B1] \<or> c = ascii ''PHP'' then ascii ''PHP''
      else if c = ascii ''R$'' \<or> c = ascii ''BRL'' then ascii ''BRL''
      else if c = ascii ''A$'' \<or> c = ascii ''AUD'' then ascii ''AUD''
      else if c = ascii ''C$'' \<or> c = ascii ''CAD'' then ascii ''CAD''
      else if c = ascii ''HK$'' then ascii ''HKD''
      else if c = ascii ''NT$'' then ascii ''TWD''
      else c)"

text \<open>The known tokens with their canonical codes, as the specification lists them:
  the symbols and the alphabetic codes, and \<^verbatim>\<open>TL\<close>.\<close>

definition currency_table :: "(jsstring \<times> jsstring) list" where
  "currency_table =
     [([0x20BA], ascii ''TRY''), (ascii ''TL'', ascii ''TRY''), (ascii ''TRY'', ascii ''TRY''),
      (ascii ''$'', ascii ''USD''), (ascii ''USD'', ascii ''USD''),
      ([0x20AC], ascii ''EUR''), (ascii ''EUR'', ascii ''EUR''),
      ([0xA3], ascii ''GBP''), (ascii ''GBP'', ascii ''GBP''),
      ([0xA5], ascii ''JPY''), (ascii ''JPY'', ascii ''JPY''),
      ([0x20B9], ascii ''INR''), (ascii ''INR'', ascii ''INR''),
      ([0x20A9], ascii ''KRW''), (ascii ''KRW'', ascii ''KRW''),
      ([0x20AB], ascii ''VND''), (ascii ''VND'', ascii ''VND''),
      ([0x20A6], ascii ''NGN''), (ascii ''NGN'', ascii ''NGN''),
      ([0x20B1], ascii ''PHP''), (ascii ''PHP'', ascii ''PHP''),
      (ascii ''R$'', ascii ''BRL''), (ascii ''BRL'', ascii ''BRL''),
      (ascii ''A$'', ascii ''AUD''), (ascii ''AUD'', ascii ''AUD''),
      (ascii ''C$'', ascii ''CAD''), (ascii ''CAD'', ascii ''CAD''),
      (ascii ''HK$'', ascii ''HKD''), (ascii ''NT$'', ascii ''TWD'')]"

text \<open>The patterns of \<^verbatim>\<open>normNumber\<close>: \<^verbatim>\<open>/^(\d+)\s*bin\b/\<close>, \<^verbatim>\<open>/\s*bin\b/\<close>,
  \<^verbatim>\<open>/\.\d{1,2}$/\<close> and \<^verbatim>\<open>/,\d{1,2}$/\<close>.\<close>

definition BIN_HEAD :: re where
  "BIN_HEAD =
     Seq Bol (Seq (Rep 1 None Digit) (Seq (Rep 0 None Space) (Seq (lits (ascii ''bin'')) WordB)))"

definition BIN_WORD :: re where
  "BIN_WORD = Seq (Rep 0 None Space) (Seq (lits (ascii ''bin'')) WordB)"

definition SEP_TAIL :: "int \<Rightarrow> re" where
  "SEP_TAIL c = Seq (Lit c) (Seq (Rep 1 (Some 2) Digit) Eol)"

text \<open>The multiplier step: when the string starts with digits and the word \<^verbatim>\<open>bin\<close>, the
  first \<^verbatim>\<open>bin\<close> (with the white space before it) goes and the multiplier is 1000.\<close>

definition strip_bin :: "jsstring \<Rightarrow> jsstring \<times> rat" where
  "strip_bin s =
     (if re_test False BIN_HEAD s then (trim (delete_first False BIN_WORD s), 1000)
      else (s, 1))"

text \<open>The decimal separator the code settles on (\<open>None\<close> is \<^verbatim>\<open>null\<close>); \<open>46\<close> is the dot
  and \<open>44\<close> the comma.\<close>

definition decimalSep_of :: "jsstring \<Rightarrow> int option" where
  "decimalSep_of s =
     (let lastDot = lastIndexOf s 46; lastComma = lastIndexOf s 44 in
      if lastDot \<noteq> - 1 \<and> lastComma \<noteq> - 1 then Some (if lastDot > lastComma then 46 else 44)
      else if lastDot \<noteq> - 1 then (if re_test False (SEP_TAIL 46) s then Some 46 else None)
      else if lastComma \<noteq> - 1 then (if re_test False (SEP_TAIL 44) s then Some 44 else None)
      else None)"

definition resolve_seps :: "jsstring \<Rightarrow> jsstring" where
  "resolve_seps s =
     (case decimalSep_of s of
        Some d \<Rightarrow>
          let other = (if d = 46 then 44 else 46);
              s1 = delete_all (\<lambda>u. u = other) s;
              s2 = (if d = 44 then replace_all (\<lambda>u. u = 44) 46 s1 else s1)
          in delete_all is_ws s2
      | None \<Rightarrow> delete_all (\<lambda>u. u = 46 \<or> u = 44 \<or> is_ws u) s)"

definition prepare :: "jsstring \<Rightarrow> jsstring" where
  "prepare str = replace_all (\<lambda>u. u = 0xA0 \<or> u = 0x202F) 32 (trim (toLowerCase str))"


text \<open>The string \<^verbatim>\<open>normNumber\<close> hands to \<^verbatim>\<open>parseFloat\<close>: the input after the separators
  are resolved.\<close>

definition cleaned :: "jsstring \<Rightarrow> jsstring" where
  "cleaned str = resolve_seps (fst (strip_bin (prepare str)))"


section \<open>Recognition of currency amounts\<close>








text \<open>
  Every match of \<^verbatim>\<open>CURRENCY_RE\<close> holds at least one unit (a currency token and a digit),
  so each \<^verbatim>\<open>exec\<close> moves \<^verbatim>\<open>lastIndex\<close> forward and the scanning loop of
  \<^verbatim>\<open>extractFindingsInPage\<close> ends. The lemmas below are what its termination rests on.
\<close>

declare rep.simps [simp del]
















section \<open>Detection of Super Thanks blocks\<close>









section \<open>Findings\<close>










section \<open>The live collection state\<close>










text \<open>\<^verbatim>\<open>round2\<close> and \<^verbatim>\<open>mapToSortedObject\<close>. The object is the list of its entries in the
  order of insertion. \<^verbatim>\<open>localeCompare\<close> is the collation of the host; the model compares
  code units, which is the same order on the currency codes (upper-case ASCII letters).
  \<^verbatim>\<open>Array.prototype.sort\<close> is stable, as \<open>sort_key\<close> is.\<close>

definition round2 :: "jsnum \<Rightarrow> jsnum" where
  "round2 n = js_over (math_round (js_times n 100)) 100"

definition mapToSortedObject :: "(jsstring \<times> jsnum) list \<Rightarrow> (jsstring \<times> jsnum) list" where
  "mapToSortedObject m = map (\<lambda>(cur, amt). (cur, round2 amt)) (sort_key fst m)"





section \<open>Example blocks\<close>





section \<open>Properties\<close>

subsection \<open>Currency normalization\<close>

lemma normalizeCurrency_known_all:
  "list_all (\<lambda>(tok, code). normalizeCurrency tok = code) currency_table"
  by code_simp

lemma normalizeCurrency_unknown:
  "c \<notin> fst ` set currency_table \<Longrightarrow> normalizeCurrency c = c"
  by (simp add: currency_table_def normalizeCurrency_def ascii_def)

text \<open>
  C5. \<^verbatim>\<open>normalizeCurrency\<close> maps every known token (the lira sign, \<^verbatim>\<open>TL\<close> and \<^verbatim>\<open>TRY\<close> to
  \<^verbatim>\<open>TRY\<close>, the dollar sign to \<^verbatim>\<open>USD\<close>, \<^verbatim>\<open>HK$\<close> to \<^verbatim>\<open>HKD\<close>, and so on through the table) to
  its canonical code, and returns every token outside the table unchanged.
\<close>

theorem normalizeCurrency_table:
  "(\<forall>(tok, code) \<in> set currency_table. normalizeCurrency tok = code)
   \<and> (c \<notin> fst ` set currency_table \<longrightarrow> normalizeCurrency c = c)"
  using normalizeCurrency_known_all [unfolded list_all_iff] normalizeCurrency_unknown
  by blast

theorem normalizeCurrency_table_witness:
  "normalizeCurrency [0x20BA] = ascii ''TRY'' \<and> normalizeCurrency (ascii ''TL'') = ascii ''TRY''
   \<and> normalizeCurrency (ascii ''TRY'') = ascii ''TRY''
   \<and> normalizeCurrency (ascii ''$'') = ascii ''USD''
   \<and> normalizeCurrency [0x20AC] = ascii ''EUR''
   \<and> normalizeCurrency (ascii ''HK$'') = ascii ''HKD''
   \<and> normalizeCurrency (ascii ''NT$'') = ascii ''TWD''
   \<and> ascii ''XYZ'' \<notin> fst ` set currency_table
   \<and> normalizeCurrency (ascii ''XYZ'') = ascii ''XYZ''"
proof -
  have unknown: "ascii ''XYZ'' \<notin> fst ` set currency_table"
    by (simp add: currency_table_def ascii_def)
  have known: "([0x20BA], ascii ''TRY'') \<in> set currency_table"
    "(ascii ''TL'', ascii ''TRY'') \<in> set currency_table"
    "(ascii ''TRY'', ascii ''TRY'') \<in> set currency_table"
    "(ascii ''$'', ascii ''USD'') \<in> set currency_table"
    "([0x20AC], ascii ''EUR'') \<in> set currency_table"
    "(ascii ''HK$'', ascii ''HKD'') \<in> set currency_table"
    "(ascii ''NT$'', ascii ''TWD'') \<in> set currency_table"
    by (simp_all add: currency_table_def)
  note t = normalizeCurrency_table [of "ascii ''XYZ''"]
  from t have all: "\<forall>(tok, code) \<in> set currency_table. normalizeCurrency tok = code"
    by (rule conjunct1)
  from t have "ascii ''XYZ'' \<notin> fst ` set currency_table
      \<longrightarrow> normalizeCurrency (ascii ''XYZ'') = ascii ''XYZ''"
    by (rule conjunct2)
  from this unknown have u: "normalizeCurrency (ascii ''XYZ'') = ascii ''XYZ''"
    by (rule mp)
  have k: "normalizeCurrency [0x20BA] = ascii ''TRY''"
    "normalizeCurrency (ascii ''TL'') = ascii ''TRY''"
    "normalizeCurrency (ascii ''TRY'') = ascii ''TRY''"
    "normalizeCurrency (ascii ''$'') = ascii ''USD''"
    "normalizeCurrency [0x20AC] = ascii ''EUR''"
    "normalizeCurrency (ascii ''HK$'') = ascii ''HKD''"
    "normalizeCurrency (ascii ''NT$'') = ascii ''TWD''"
    using known [THEN bspec [OF all]] by simp_all
  show ?thesis
    by (intro conjI k u unknown)
qed


subsection \<open>The totals invariant\<close>





















end
